theory Spec2Isabelle
  imports Main
begin

section \<open>The content-fetch request handler\<close>

text \<open>
  A shallow embedding of \<^verbatim>\<open>packages/content-fetch/src/request_handler.ts\<close>.
  The handler is an \<^verbatim>\<open>async\<close> function that talks to four collaborators
  (the page fetcher, the storage bucket, the job queue, the analytics client), to the
  clock, to the console and to the HTTP response. The model makes all of that explicit:
  the collaborators are fields of a \<open>world\<close> record, every call that leaves the handler
  is appended to a trace of effects, and a thrown value is a result, not an exception.

  Field names carry the name of their interface as a prefix (\<open>body_url\<close>, \<open>log_url\<close>,
  \<open>data_url\<close>), since the same field name occurs in several interfaces of the source.
\<close>

subsection \<open>Interfaces\<close>

text \<open>\<^verbatim>\<open>interface User { id: string; folder?: string }\<close>\<close>

record user =
  user_id :: string
  user_folder :: "string option"

datatype priority = High | Low

text \<open>\<^verbatim>\<open>interface RequestBody\<close>: an optional field is an \<open>option\<close>.\<close>

record request_body =
  body_url :: string
  body_userId :: "string option"
  body_saveRequestId :: string
  body_state :: "string option"
  body_labels :: "string list option"
  body_source :: "string option"
  body_taskId :: "string option"
  body_locale :: "string option"
  body_timezone :: "string option"
  body_rssFeedUrl :: "string option"
  body_savedAt :: "string option"
  body_publishedAt :: "string option"
  body_folder :: "string option"
  body_users :: "user list option"
  body_priority :: priority

text \<open>\<^verbatim>\<open>interface LogRecord\<close>; \<open>log_source\<close> is \<^verbatim>\<open>labels.source\<close>.\<close>

record log_record =
  log_url :: string
  log_articleSavingRequestId :: string
  log_source :: string
  log_state :: "string option"
  log_labelsToAdd :: "string list option"
  log_taskId :: "string option"
  log_locale :: "string option"
  log_timezone :: "string option"
  log_rssFeedUrl :: "string option"
  log_savedAt :: "string option"
  log_publishedAt :: "string option"
  log_folder :: "string option"
  log_users :: "user list option"
  log_error :: "string option"
  log_totalTime :: "int option"

text \<open>What \<^verbatim>\<open>fetchContent\<close> resolves to: the handler reads these four fields.\<close>

record fetch_result =
  fetch_finalUrl :: string
  fetch_title :: "string option"
  fetch_content :: "string option"
  fetch_contentType :: "string option"

text \<open>The object literal of lines 128 to 150: the job and its \<^verbatim>\<open>data\<close>.\<close>

record save_page_data =
  data_userId :: string
  data_url :: string
  data_finalUrl :: string
  data_articleSavingRequestId :: string
  data_state :: "string option"
  data_labels :: "string list option"
  data_source :: string
  data_folder :: "string option"
  data_rssFeedUrl :: "string option"
  data_savedAt :: "string option"
  data_publishedAt :: "string option"
  data_taskId :: "string option"
  data_title :: "string option"
  data_contentType :: "string option"
  data_contentHash :: "string option"

record save_page_job =
  job_userId :: string
  job_data :: save_page_data
  job_isRss :: bool
  job_isImport :: bool
  job_priority :: priority

text \<open>
  The event handed to \<^verbatim>\<open>analytics.capture\<close> (lines 169 to 175); \<open>event_url\<close> and
  \<open>event_totalTime\<close> are the two entries of its \<^verbatim>\<open>properties\<close>.
\<close>

datatype analytic_result = Failure | Success

record analytic_event =
  event_result :: analytic_result
  event_url :: string
  event_totalTime :: int

subsection \<open>Thrown values, collaborators, effects\<close>

text \<open>
  The \<^verbatim>\<open>catch\<close> clause tells two kinds of thrown value apart: an instance of
  \<^verbatim>\<open>Error\<close>, of which it reads the message, and anything else.
\<close>

datatype thrown = Error string | NonError

datatype 'a outcome = Returns 'a | Throws thrown

type_synonym job_handle = string

text \<open>
  The collaborators of one run. \<open>dateNow w k\<close> is what the \<open>k\<close>-th call of
  \<^verbatim>\<open>Date.now()\<close> returns (the handler makes two); \<open>gcs_upload_bucket\<close> is the
  environment variable \<^verbatim>\<open>GCS_UPLOAD_BUCKET\<close>; \<open>md5_hex\<close> is
  \<^verbatim>\<open>crypto.createHash('md5').update(content).digest('hex')\<close>; \<open>storage_save\<close> takes
  the bucket, the file name and the data. \<^verbatim>\<open>analytics.capture\<close> is called without
  \<^verbatim>\<open>await\<close>: only a synchronous throw of it reaches the handler, and that is what
  \<open>Throws\<close> means for it.
\<close>

record world =
  dateNow :: "nat \<Rightarrow> int"
  gcs_upload_bucket :: "string option"
  fetchContent :: "string \<Rightarrow> string option \<Rightarrow> string option \<Rightarrow> fetch_result outcome"
  md5_hex :: "string \<Rightarrow> string"
  storage_save :: "string \<Rightarrow> string \<Rightarrow> string \<Rightarrow> unit outcome"
  queueSavePageJob :: "save_page_job list \<Rightarrow> job_handle list outcome"
  analytics_capture :: "string list \<Rightarrow> analytic_event \<Rightarrow> unit outcome"

datatype log_message =
    ArticleParsingRequest log_record
  | ContentUploaded string
  | JobsQueued nat
  | ParsePageResult log_record

datatype effect =
    ConsoleLog log_message
  | FetchCall string "string option" "string option"
  | SaveCall string string string
  | QueueCall "save_page_job list"
  | CaptureCall "string list" analytic_event
  | SendStatus nat

subsection \<open>JavaScript truthiness of an optional string\<close>

text \<open>
  \<^verbatim>\<open>if (x)\<close>, \<^verbatim>\<open>!!x\<close>, \<^verbatim>\<open>x ? a : b\<close> and \<^verbatim>\<open>x || d\<close> on a value of type
  \<^verbatim>\<open>string | undefined\<close>: \<^verbatim>\<open>undefined\<close> and the empty string are falsy, every
  other string is truthy.
\<close>

definition truthy :: "string option \<Rightarrow> bool" where
  "truthy x = (case x of None \<Rightarrow> False | Some s \<Rightarrow> s \<noteq> [])"

definition or_else :: "string option \<Rightarrow> string \<Rightarrow> string" where
  "or_else x d = (case x of None \<Rightarrow> d | Some s \<Rightarrow> if s = [] then d else s)"

subsection \<open>The handler\<close>

text \<open>
  Lines 72 to 82. \<^verbatim>\<open>body.users || []\<close>: an array is truthy even when empty, so only
  an absent list is replaced. \<^verbatim>\<open>if (userId)\<close> is the truthiness test of a string.
\<close>

definition request_users :: "request_body \<Rightarrow> user list" where
  "request_users body =
     (let users = (case body_users body of None \<Rightarrow> [] | Some us \<Rightarrow> us)
      in case body_userId body of
           None \<Rightarrow> users
         | Some userId \<Rightarrow>
             if userId \<noteq> []
             then [\<lparr>user_id = userId, user_folder = body_folder body\<rparr>]
             else users)"

text \<open>
  Lines 54 and 56 to 61. The options of \<^verbatim>\<open>save\<close> (\<^verbatim>\<open>public: false\<close>,
  \<^verbatim>\<open>timeout: 30000\<close>) are constants and are left out of the call's record.
\<close>

definition bucketName :: "world \<Rightarrow> string" where
  "bucketName w = or_else (gcs_upload_bucket w) ''omnivore-files''"

definition uploadToBucket :: "world \<Rightarrow> string \<Rightarrow> string \<Rightarrow> effect list \<times> unit outcome" where
  "uploadToBucket w filename data =
     (let file = ''originalContent/'' @ filename
      in ([SaveCall (bucketName w) file data], storage_save w (bucketName w) file data))"

text \<open>Lines 63 and 64.\<close>

definition hash :: "world \<Rightarrow> string \<Rightarrow> string" where
  "hash w content = md5_hex w content"

text \<open>Lines 118 to 126: the value is the binding \<^verbatim>\<open>contentHash\<close>.\<close>

definition content_step :: "world \<Rightarrow> fetch_result \<Rightarrow> effect list \<times> string option outcome" where
  "content_step w fetchResult =
     (case fetch_content fetchResult of
        None \<Rightarrow> ([], Returns None)
      | Some content \<Rightarrow>
          if content \<noteq> []
          then (let contentHash = hash w content
                in case uploadToBucket w contentHash content of
                     (tr, Throws err) \<Rightarrow> (tr, Throws err)
                   | (tr, Returns _) \<Rightarrow>
                       (tr @ [ConsoleLog (ContentUploaded contentHash)],
                        Returns (Some contentHash)))
          else ([], Returns None))"

text \<open>Lines 128 to 150: \<^verbatim>\<open>users.map\<close> over the recipients, in their order.\<close>

definition savePageJob ::
  "request_body \<Rightarrow> fetch_result \<Rightarrow> string option \<Rightarrow> user \<Rightarrow> save_page_job" where
  "savePageJob body fetchResult contentHash u =
     \<lparr>job_userId = user_id u,
      job_data =
        \<lparr>data_userId = user_id u,
         data_url = body_url body,
         data_finalUrl = fetch_finalUrl fetchResult,
         data_articleSavingRequestId = body_saveRequestId body,
         data_state = body_state body,
         data_labels = body_labels body,
         data_source = or_else (body_source body) ''puppeteer-parse'',
         data_folder = user_folder u,
         data_rssFeedUrl = body_rssFeedUrl body,
         data_savedAt = body_savedAt body,
         data_publishedAt = body_publishedAt body,
         data_taskId = body_taskId body,
         data_title = fetch_title fetchResult,
         data_contentType = fetch_contentType fetchResult,
         data_contentHash = contentHash\<rparr>,
      job_isRss = truthy (body_rssFeedUrl body),
      job_isImport = truthy (body_taskId body),
      job_priority = body_priority body\<rparr>"

definition savePageJobs ::
  "request_body \<Rightarrow> user list \<Rightarrow> fetch_result \<Rightarrow> string option \<Rightarrow> save_page_job list" where
  "savePageJobs body users fetchResult contentHash =
     map (savePageJob body fetchResult contentHash) users"

text \<open>
  The \<^verbatim>\<open>try\<close> block, lines 116 to 153. \<open>try_jobs\<close> is the binding
  \<^verbatim>\<open>savePageJobs\<close>: \<open>None\<close> when control never reaches line 128. \<open>try_thrown\<close> is
  the value that leaves the block for the \<^verbatim>\<open>catch\<close> clause, if any.
\<close>

record try_result =
  try_trace :: "effect list"
  try_jobs :: "save_page_job list option"
  try_thrown :: "thrown option"

definition try_block :: "world \<Rightarrow> request_body \<Rightarrow> user list \<Rightarrow> try_result" where
  "try_block w body users =
     (let fetched = [FetchCall (body_url body) (body_locale body) (body_timezone body)]
      in case fetchContent w (body_url body) (body_locale body) (body_timezone body) of
           Throws err \<Rightarrow>
             \<lparr>try_trace = fetched, try_jobs = None, try_thrown = Some err\<rparr>
         | Returns fetchResult \<Rightarrow>
             (case content_step w fetchResult of
                (tr, Throws err) \<Rightarrow>
                  \<lparr>try_trace = fetched @ tr, try_jobs = None, try_thrown = Some err\<rparr>
              | (tr, Returns contentHash) \<Rightarrow>
                  (let jobs = savePageJobs body users fetchResult contentHash
                   in case queueSavePageJob w jobs of
                        Throws err \<Rightarrow>
                          \<lparr>try_trace = fetched @ tr @ [QueueCall jobs],
                           try_jobs = Some jobs, try_thrown = Some err\<rparr>
                      | Returns handles \<Rightarrow>
                          \<lparr>try_trace = fetched @ tr @
                             [QueueCall jobs, ConsoleLog (JobsQueued (length handles))],
                           try_jobs = Some jobs, try_thrown = None\<rparr>)))"

text \<open>Lines 155 to 159: what the \<^verbatim>\<open>catch\<close> clause stores in \<^verbatim>\<open>logRecord.error\<close>.\<close>

definition error_message :: "thrown \<Rightarrow> string" where
  "error_message err = (case err of Error message \<Rightarrow> message | NonError \<Rightarrow> ''unknown error'')"

text \<open>
  One run of the handler. \<open>run_trace\<close> lists the calls that left the handler, in order;
  \<open>run_jobs\<close> is the binding \<^verbatim>\<open>savePageJobs\<close>; \<open>run_logRecord\<close> is
  \<^verbatim>\<open>logRecord\<close> as the \<^verbatim>\<open>finally\<close> block leaves it; \<open>run_result\<close> tells whether the
  promise of the handler resolves or rejects.

  \<^verbatim>\<open>return res.sendStatus(500)\<close> sends the status before the \<^verbatim>\<open>finally\<close> block
  runs; line 179 runs after it, and only when nothing was returned or thrown. Nothing
  surrounds \<^verbatim>\<open>analytics.capture\<close>, so a value it throws leaves the \<^verbatim>\<open>finally\<close>
  block and rejects the promise.
\<close>

record run =
  run_trace :: "effect list"
  run_jobs :: "save_page_job list option"
  run_logRecord :: log_record
  run_result :: "unit outcome"

definition contentFetchRequestHandler :: "world \<Rightarrow> request_body \<Rightarrow> run" where
  "contentFetchRequestHandler w body =
     (let functionStartTime = dateNow w 0;
          users = request_users body;
          logRecord =
            \<lparr>log_url = body_url body,
             log_articleSavingRequestId = body_saveRequestId body,
             log_source = or_else (body_source body) ''puppeteer-parse'',
             log_state = body_state body,
             log_labelsToAdd = body_labels body,
             log_taskId = body_taskId body,
             log_locale = body_locale body,
             log_timezone = body_timezone body,
             log_rssFeedUrl = body_rssFeedUrl body,
             log_savedAt = body_savedAt body,
             log_publishedAt = body_publishedAt body,
             log_folder = None,
             log_users = Some users,
             log_error = None,
             log_totalTime = None\<rparr>;
          t = try_block w body users;
          caught =
            (case try_thrown t of
               None \<Rightarrow> logRecord
             | Some err \<Rightarrow> logRecord\<lparr>log_error := Some (error_message err)\<rparr>);
          catch_trace = (case try_thrown t of None \<Rightarrow> [] | Some err \<Rightarrow> [SendStatus 500]);
          totalTime = dateNow w 1 - functionStartTime;
          final = caught\<lparr>log_totalTime := Some totalTime\<rparr>;
          ids = map user_id users;
          event =
            \<lparr>event_result = (if truthy (log_error final) then Failure else Success),
             event_url = body_url body,
             event_totalTime = totalTime\<rparr>;
          tr = [ConsoleLog (ArticleParsingRequest logRecord)] @ try_trace t @ catch_trace @
               [ConsoleLog (ParsePageResult final), CaptureCall ids event]
      in case analytics_capture w ids event of
           Throws err \<Rightarrow>
             \<lparr>run_trace = tr, run_jobs = try_jobs t, run_logRecord = final,
              run_result = Throws err\<rparr>
         | Returns _ \<Rightarrow>
             \<lparr>run_trace = (case try_thrown t of None \<Rightarrow> tr @ [SendStatus 200] | Some err \<Rightarrow> tr),
              run_jobs = try_jobs t, run_logRecord = final,
              run_result = Returns ()\<rparr>)"

subsection \<open>Reading a trace\<close>

text \<open>The calls of one kind in a trace, in the order they were made.\<close>

fun fetch_calls :: "effect list \<Rightarrow> (string \<times> string option \<times> string option) list" where
  "fetch_calls [] = []"
| "fetch_calls (FetchCall u l z # tr) = (u, l, z) # fetch_calls tr"
| "fetch_calls (_ # tr) = fetch_calls tr"

fun save_calls :: "effect list \<Rightarrow> (string \<times> string \<times> string) list" where
  "save_calls [] = []"
| "save_calls (SaveCall b f d # tr) = (b, f, d) # save_calls tr"
| "save_calls (_ # tr) = save_calls tr"

fun queue_calls :: "effect list \<Rightarrow> save_page_job list list" where
  "queue_calls [] = []"
| "queue_calls (QueueCall jobs # tr) = jobs # queue_calls tr"
| "queue_calls (_ # tr) = queue_calls tr"

fun capture_calls :: "effect list \<Rightarrow> (string list \<times> analytic_event) list" where
  "capture_calls [] = []"
| "capture_calls (CaptureCall ids ev # tr) = (ids, ev) # capture_calls tr"
| "capture_calls (_ # tr) = capture_calls tr"

fun statuses :: "effect list \<Rightarrow> nat list" where
  "statuses [] = []"
| "statuses (SendStatus s # tr) = s # statuses tr"
| "statuses (_ # tr) = statuses tr"

subsection \<open>A concrete world and request\<close>

text \<open>
  The example of the specification: the fetch of \<^verbatim>\<open>https://a.com\<close> is redirected and
  returns HTML; every collaborator succeeds. \<open>md5_hex\<close> returns the MD5 digest of the
  one content hashed here. The clock reads 1000 at the start and 1250 in the
  \<^verbatim>\<open>finally\<close> block. The request names two recipients and no single user.
\<close>

definition example_fetch_result :: fetch_result where
  "example_fetch_result =
     \<lparr>fetch_finalUrl = ''https://a.com/amp'',
      fetch_title = Some ''A'',
      fetch_content = Some ''<html>...'',
      fetch_contentType = Some ''text/html''\<rparr>"

definition example_world :: world where
  "example_world =
     \<lparr>dateNow = (\<lambda>k. if k = 0 then 1000 else 1250),
      gcs_upload_bucket = None,
      fetchContent = (\<lambda>url locale timezone. Returns example_fetch_result),
      md5_hex = (\<lambda>content. ''154b8e64123a857631091c7291cb8d9f''),
      storage_save = (\<lambda>bucket file data. Returns ()),
      queueSavePageJob = (\<lambda>jobs. Returns (map job_userId jobs)),
      analytics_capture = (\<lambda>ids event. Returns ())\<rparr>"

definition example_body :: request_body where
  "example_body =
     \<lparr>body_url = ''https://a.com'',
      body_userId = None,
      body_saveRequestId = ''r1'',
      body_state = None,
      body_labels = None,
      body_source = None,
      body_taskId = None,
      body_locale = None,
      body_timezone = None,
      body_rssFeedUrl = None,
      body_savedAt = None,
      body_publishedAt = None,
      body_folder = None,
      body_users = Some [\<lparr>user_id = ''u1'', user_folder = Some ''inbox''\<rparr>,
                         \<lparr>user_id = ''u2'', user_folder = None\<rparr>],
      body_priority = High\<rparr>"

text \<open>Everything a run on concrete data unfolds.\<close>

lemmas run_defs =
  contentFetchRequestHandler_def try_block_def content_step_def uploadToBucket_def
  bucketName_def hash_def savePageJobs_def savePageJob_def request_users_def truthy_def
  or_else_def error_message_def example_world_def example_body_def example_fetch_result_def
  Let_def

section \<open>Properties\<close>

subsection \<open>Traces of the handler\<close>

lemma fetch_calls_append: "fetch_calls (xs @ ys) = fetch_calls xs @ fetch_calls ys"
  by (induction xs rule: fetch_calls.induct) simp_all

lemma save_calls_append: "save_calls (xs @ ys) = save_calls xs @ save_calls ys"
  by (induction xs rule: save_calls.induct) simp_all

lemma queue_calls_append: "queue_calls (xs @ ys) = queue_calls xs @ queue_calls ys"
  by (induction xs rule: queue_calls.induct) simp_all

lemma capture_calls_append: "capture_calls (xs @ ys) = capture_calls xs @ capture_calls ys"
  by (induction xs rule: capture_calls.induct) simp_all

lemma statuses_append: "statuses (xs @ ys) = statuses xs @ statuses ys"
  by (induction xs rule: statuses.induct) simp_all

lemmas reader_append =
  fetch_calls_append save_calls_append queue_calls_append capture_calls_append statuses_append

lemma content_step_cases:
  "content_step w fr =
     (case fetch_content fr of
        None \<Rightarrow> ([], Returns None)
      | Some c \<Rightarrow>
          if c = [] then ([], Returns None)
          else (case storage_save w (bucketName w) (''originalContent/'' @ hash w c) c of
                  Throws err \<Rightarrow>
                    ([SaveCall (bucketName w) (''originalContent/'' @ hash w c) c], Throws err)
                | Returns u \<Rightarrow>
                    ([SaveCall (bucketName w) (''originalContent/'' @ hash w c) c,
                      ConsoleLog (ContentUploaded (hash w c))], Returns (Some (hash w c)))))"
  by (simp add: content_step_def uploadToBucket_def Let_def split: option.splits outcome.splits)

lemma content_step_trace:
  assumes "content_step w fr = (tr, r)"
  shows "fetch_calls tr = []" and "queue_calls tr = []" and "capture_calls tr = []"
    and "statuses tr = []"
  using assms
  by (auto simp: content_step_cases split: option.splits outcome.splits if_splits)

lemma try_block_fetch_calls:
  "fetch_calls (try_trace (try_block w body users)) =
     [(body_url body, body_locale body, body_timezone body)]"
  by (auto simp: try_block_def Let_def reader_append content_step_trace
           split: outcome.splits prod.splits)

lemma try_block_no_capture:
  "capture_calls (try_trace (try_block w body users)) = []"
  by (auto simp: try_block_def Let_def reader_append content_step_trace
           split: outcome.splits prod.splits)

lemma try_block_no_status:
  "statuses (try_trace (try_block w body users)) = []"
  by (auto simp: try_block_def Let_def reader_append content_step_trace
           split: outcome.splits prod.splits)

lemma try_block_queue_calls:
  "queue_calls (try_trace (try_block w body users)) =
     (case try_jobs (try_block w body users) of None \<Rightarrow> [] | Some jobs \<Rightarrow> [jobs])"
  by (auto simp: try_block_def Let_def reader_append content_step_trace
           split: outcome.splits prod.splits)

lemma handler_fetch_calls:
  "fetch_calls (run_trace (contentFetchRequestHandler w body)) =
     [(body_url body, body_locale body, body_timezone body)]"
  by (simp add: contentFetchRequestHandler_def Let_def reader_append try_block_fetch_calls
           split: outcome.splits option.splits)

lemma handler_queue_calls:
  "queue_calls (run_trace (contentFetchRequestHandler w body)) =
     (case try_jobs (try_block w body (request_users body)) of
        None \<Rightarrow> []
      | Some jobs \<Rightarrow> [jobs])"
  by (simp add: contentFetchRequestHandler_def Let_def reader_append
        try_block_queue_calls [symmetric] split: outcome.splits option.splits)

lemma handler_save_calls:
  "save_calls (run_trace (contentFetchRequestHandler w body)) =
     save_calls (try_trace (try_block w body (request_users body)))"
  by (simp add: contentFetchRequestHandler_def Let_def reader_append
           split: outcome.splits option.splits)

lemma handler_jobs:
  "run_jobs (contentFetchRequestHandler w body) =
     try_jobs (try_block w body (request_users body))"
  by (simp add: contentFetchRequestHandler_def Let_def split: outcome.splits)

lemma handler_error:
  "log_error (run_logRecord (contentFetchRequestHandler w body)) =
     map_option error_message (try_thrown (try_block w body (request_users body)))"
  by (simp add: contentFetchRequestHandler_def Let_def split: outcome.splits option.splits)

lemma handler_totalTime:
  "log_totalTime (run_logRecord (contentFetchRequestHandler w body)) =
     Some (dateNow w 1 - dateNow w 0)"
  by (simp add: contentFetchRequestHandler_def Let_def split: outcome.splits option.splits)

lemma handler_capture_calls:
  "capture_calls (run_trace (contentFetchRequestHandler w body)) =
     [(map user_id (request_users body),
       \<lparr>event_result =
          (if truthy (log_error (run_logRecord (contentFetchRequestHandler w body)))
           then Failure else Success),
        event_url = body_url body,
        event_totalTime = dateNow w 1 - dateNow w 0\<rparr>)]"
  by (simp add: contentFetchRequestHandler_def Let_def reader_append try_block_no_capture
           split: outcome.splits option.splits)

lemma handler_statuses:
  "statuses (run_trace (contentFetchRequestHandler w body)) =
     (case try_thrown (try_block w body (request_users body)) of
        Some err \<Rightarrow> [500]
      | None \<Rightarrow>
          (case run_result (contentFetchRequestHandler w body) of
             Returns u \<Rightarrow> [200]
           | Throws err \<Rightarrow> []))"
  by (simp add: contentFetchRequestHandler_def Let_def reader_append try_block_no_status
           split: outcome.splits option.splits)

lemma run_result_eq:
  "run_result (contentFetchRequestHandler w body) =
     (case capture_calls (run_trace (contentFetchRequestHandler w body)) of
        [(ids, event)] \<Rightarrow>
          (case analytics_capture w ids event of Returns u \<Rightarrow> Returns () | Throws err \<Rightarrow> Throws err)
      | _ \<Rightarrow> Returns ())"
  by (simp add: contentFetchRequestHandler_def Let_def reader_append try_block_no_capture
           split: outcome.splits option.splits)

lemma try_block_fetch_throws:
  assumes "fetchContent w (body_url body) (body_locale body) (body_timezone body) = Throws err"
  shows "try_block w body users =
           \<lparr>try_trace = [FetchCall (body_url body) (body_locale body) (body_timezone body)],
            try_jobs = None, try_thrown = Some err\<rparr>"
  using assms by (simp add: try_block_def Let_def)

lemma try_block_store_throws:
  assumes "fetchContent w (body_url body) (body_locale body) (body_timezone body) = Returns fr"
      and "content_step w fr = (tr, Throws err)"
  shows "try_block w body users =
           \<lparr>try_trace = FetchCall (body_url body) (body_locale body) (body_timezone body) # tr,
            try_jobs = None, try_thrown = Some err\<rparr>"
  using assms by (simp add: try_block_def Let_def)

lemma try_block_queue_throws:
  assumes "fetchContent w (body_url body) (body_locale body) (body_timezone body) = Returns fr"
      and "content_step w fr = (tr, Returns contentHash)"
      and "queueSavePageJob w (savePageJobs body users fr contentHash) = Throws err"
  shows "try_block w body users =
           \<lparr>try_trace = FetchCall (body_url body) (body_locale body) (body_timezone body) # tr @
              [QueueCall (savePageJobs body users fr contentHash)],
            try_jobs = Some (savePageJobs body users fr contentHash), try_thrown = Some err\<rparr>"
  using assms by (simp add: try_block_def Let_def)

lemma try_block_returns:
  assumes "fetchContent w (body_url body) (body_locale body) (body_timezone body) = Returns fr"
      and "content_step w fr = (tr, Returns contentHash)"
      and "queueSavePageJob w (savePageJobs body users fr contentHash) = Returns handles"
  shows "try_block w body users =
           \<lparr>try_trace = FetchCall (body_url body) (body_locale body) (body_timezone body) # tr @
              [QueueCall (savePageJobs body users fr contentHash),
               ConsoleLog (JobsQueued (length handles))],
            try_jobs = Some (savePageJobs body users fr contentHash), try_thrown = None\<rparr>"
  using assms by (simp add: try_block_def Let_def)


lemma content_step_no_content:
  assumes "\<not> truthy (fetch_content fr)"
  shows "content_step w fr = ([], Returns None)"
  using assms by (simp add: content_step_cases truthy_def split: option.splits)

lemma content_step_write_fails:
  assumes "fetch_content fr = Some content" and "content \<noteq> []"
      and "storage_save w (bucketName w) (''originalContent/'' @ hash w content) content =
             Throws err"
  shows "content_step w fr =
           ([SaveCall (bucketName w) (''originalContent/'' @ hash w content) content], Throws err)"
  using assms by (simp add: content_step_cases)

subsection \<open>Recipients\<close>

text \<open>
  C1, as the code has it. The handler never inspects the length of the recipient list:
  a request whose list is empty after normalization is fetched like any other. The
  page fetcher is called once with the request's url, locale and timezone, and when
  fetch, store and enqueue succeed the empty batch is submitted, no error is recorded
  and status 200 is sent (unless the analytics client throws).
\<close>

theorem empty_recipients_not_validated:
  assumes "request_users body = []"
      and "fetchContent w (body_url body) (body_locale body) (body_timezone body) = Returns fr"
      and "snd (content_step w fr) = Returns contentHash"
      and "queueSavePageJob w [] = Returns handles"
  shows "fetch_calls (run_trace (contentFetchRequestHandler w body)) =
           [(body_url body, body_locale body, body_timezone body)]
       \<and> queue_calls (run_trace (contentFetchRequestHandler w body)) = [[]]
       \<and> log_error (run_logRecord (contentFetchRequestHandler w body)) = None
       \<and> statuses (run_trace (contentFetchRequestHandler w body)) =
           (case run_result (contentFetchRequestHandler w body) of
              Returns u \<Rightarrow> [200] | Throws e \<Rightarrow> [])"
proof -
  obtain tr where step: "content_step w fr = (tr, Returns contentHash)"
    using assms(3) by (cases "content_step w fr") simp
  have "savePageJobs body (request_users body) fr contentHash = []"
    by (simp add: savePageJobs_def assms(1))
  with assms(4) have "queueSavePageJob w
      (savePageJobs body (request_users body) fr contentHash) = Returns handles"
    by simp
  from try_block_returns [OF assms(2) step this]
  show ?thesis
    by (simp add: handler_fetch_calls handler_queue_calls handler_error handler_statuses
          savePageJobs_def assms(1))
qed

theorem empty_recipients_not_validated_witness:
  "request_users (example_body\<lparr>body_users := None\<rparr>) = []
   \<and> fetch_calls (run_trace (contentFetchRequestHandler example_world
        (example_body\<lparr>body_users := None\<rparr>))) = [(''https://a.com'', None, None)]
   \<and> queue_calls (run_trace (contentFetchRequestHandler example_world
        (example_body\<lparr>body_users := None\<rparr>))) = [[]]
   \<and> statuses (run_trace (contentFetchRequestHandler example_world
        (example_body\<lparr>body_users := None\<rparr>))) = [200]"
proof -
  let ?b = "example_body\<lparr>body_users := None\<rparr>"
  have h1: "request_users ?b = []"
    by (simp add: request_users_def example_body_def)
  have h2: "fetchContent example_world (body_url ?b) (body_locale ?b) (body_timezone ?b) =
              Returns example_fetch_result"
    by (simp add: example_world_def)
  have h3: "snd (content_step example_world example_fetch_result) =
              Returns (Some ''154b8e64123a857631091c7291cb8d9f'')"
    by (simp add: run_defs)
  have h4: "queueSavePageJob example_world [] = Returns []"
    by (simp add: example_world_def)
  have r: "run_result (contentFetchRequestHandler example_world ?b) = Returns ()"
    by (simp add: run_defs)
  from empty_recipients_not_validated [OF h1 h2 h3 h4] h1 r show ?thesis
    by (simp add: example_body_def)
qed

text \<open>
  C1, as the specification states it, fails: with no users list and no single user the
  recipient list is empty, yet the page is fetched, stored, an empty batch is queued
  and the request is answered with 200.
\<close>

theorem empty_recipients_fetched_counterexample:
  "request_users (example_body\<lparr>body_users := None\<rparr>) = []
   \<and> fetch_calls (run_trace (contentFetchRequestHandler example_world
        (example_body\<lparr>body_users := None\<rparr>))) \<noteq> []
   \<and> statuses (run_trace (contentFetchRequestHandler example_world
        (example_body\<lparr>body_users := None\<rparr>))) = [200]
   \<and> log_error (run_logRecord (contentFetchRequestHandler example_world
        (example_body\<lparr>body_users := None\<rparr>))) = None"
  by (simp add: run_defs)

text \<open>
  C10, as the code has it. \<^verbatim>\<open>if (userId)\<close> tests truthiness: a single user that is
  present and not the empty string replaces the recipient list by the one recipient
  built from the top-level \<^verbatim>\<open>userId\<close> and \<^verbatim>\<open>folder\<close>, whatever the users list is.
\<close>

theorem single_user_overrides_users:
  assumes "body_userId body = Some userId" and "userId \<noteq> []"
  shows "request_users body = [\<lparr>user_id = userId, user_folder = body_folder body\<rparr>]"
  using assms by (simp add: request_users_def)

theorem single_user_overrides_users_witness:
  "body_userId (example_body\<lparr>body_userId := Some ''u9'', body_folder := Some ''archive''\<rparr>) =
     Some ''u9''
   \<and> ''u9'' \<noteq> []
   \<and> body_users (example_body\<lparr>body_userId := Some ''u9'', body_folder := Some ''archive''\<rparr>) =
       Some [\<lparr>user_id = ''u1'', user_folder = Some ''inbox''\<rparr>,
             \<lparr>user_id = ''u2'', user_folder = None\<rparr>]
   \<and> request_users (example_body\<lparr>body_userId := Some ''u9'', body_folder := Some ''archive''\<rparr>) =
       [\<lparr>user_id = ''u9'', user_folder = Some ''archive''\<rparr>]"
proof -
  let ?b = "example_body\<lparr>body_userId := Some ''u9'', body_folder := Some ''archive''\<rparr>"
  have h1: "body_userId ?b = Some ''u9''" by simp
  have h2: "''u9'' \<noteq> []" by simp
  from single_user_overrides_users [OF h1 h2] h1 h2 show ?thesis
    by (simp add: example_body_def)
qed

text \<open>
  C10, as stated, fails when the single user is present but is the empty string: the
  test of line 75 is false and the explicit users list is kept.
\<close>

theorem empty_single_user_counterexample:
  "body_userId (example_body\<lparr>body_userId := Some ''''\<rparr>) = Some ''''
   \<and> request_users (example_body\<lparr>body_userId := Some ''''\<rparr>) =
       [\<lparr>user_id = ''u1'', user_folder = Some ''inbox''\<rparr>,
        \<lparr>user_id = ''u2'', user_folder = None\<rparr>]
   \<and> request_users (example_body\<lparr>body_userId := Some ''''\<rparr>) \<noteq>
       [\<lparr>user_id = '''', user_folder = body_folder (example_body\<lparr>body_userId := Some ''''\<rparr>)\<rparr>]"
  by (simp add: request_users_def example_body_def)

text \<open>
  The other side of line 75 in general: a single user that is the empty string leaves
  the recipient list as \<^verbatim>\<open>body.users || []\<close> made it.
\<close>

lemma empty_single_user_keeps_users:
  assumes "body_userId body = Some ''''"
  shows "request_users body = (case body_users body of None \<Rightarrow> [] | Some us \<Rightarrow> us)"
  using assms by (simp add: request_users_def)

subsection \<open>Building and queueing the jobs\<close>

text \<open>
  C2. When the recipient list is not empty and fetch, store and enqueue all succeed,
  the queue is called once, with as many jobs as there are recipients, and the job at
  position \<open>i\<close> carries the id (as \<^verbatim>\<open>userId\<close> and as \<^verbatim>\<open>data.userId\<close>) and the
  folder of the recipient at position \<open>i\<close>.
\<close>

theorem jobs_follow_recipients:
  assumes "request_users body \<noteq> []"
      and "fetchContent w (body_url body) (body_locale body) (body_timezone body) = Returns fr"
      and "snd (content_step w fr) = Returns contentHash"
      and "queueSavePageJob w (savePageJobs body (request_users body) fr contentHash) =
             Returns handles"
  shows "\<exists>jobs. queue_calls (run_trace (contentFetchRequestHandler w body)) = [jobs]
           \<and> length jobs = length (request_users body)
           \<and> (\<forall>i < length (request_users body).
                 job_userId (jobs ! i) = user_id (request_users body ! i)
               \<and> data_userId (job_data (jobs ! i)) = user_id (request_users body ! i)
               \<and> data_folder (job_data (jobs ! i)) = user_folder (request_users body ! i))"
proof -
  obtain tr where step: "content_step w fr = (tr, Returns contentHash)"
    using assms(3) by (cases "content_step w fr") simp
  let ?jobs = "savePageJobs body (request_users body) fr contentHash"
  from try_block_returns [OF assms(2) step assms(4)]
  have "queue_calls (run_trace (contentFetchRequestHandler w body)) = [?jobs]"
    by (simp add: handler_queue_calls)
  moreover have "length ?jobs = length (request_users body)"
    by (simp add: savePageJobs_def)
  moreover have "\<forall>i < length (request_users body).
      job_userId (?jobs ! i) = user_id (request_users body ! i)
    \<and> data_userId (job_data (?jobs ! i)) = user_id (request_users body ! i)
    \<and> data_folder (job_data (?jobs ! i)) = user_folder (request_users body ! i)"
    by (simp add: savePageJobs_def savePageJob_def)
  ultimately show ?thesis by blast
qed

theorem jobs_follow_recipients_witness:
  "request_users example_body \<noteq> []
   \<and> map job_userId (concat (queue_calls (run_trace
        (contentFetchRequestHandler example_world example_body)))) = [''u1'', ''u2'']
   \<and> map (\<lambda>j. data_folder (job_data j)) (concat (queue_calls (run_trace
        (contentFetchRequestHandler example_world example_body)))) = [Some ''inbox'', None]"
proof -
  have h1: "request_users example_body \<noteq> []"
    by (simp add: request_users_def example_body_def)
  have h2: "fetchContent example_world (body_url example_body) (body_locale example_body)
              (body_timezone example_body) = Returns example_fetch_result"
    by (simp add: example_world_def)
  have h3: "snd (content_step example_world example_fetch_result) =
              Returns (Some ''154b8e64123a857631091c7291cb8d9f'')"
    by (simp add: run_defs)
  have h4: "queueSavePageJob example_world
              (savePageJobs example_body (request_users example_body) example_fetch_result
                 (Some ''154b8e64123a857631091c7291cb8d9f'')) = Returns [''u1'', ''u2'']"
    by (simp add: run_defs)
  have us: "request_users example_body =
              [\<lparr>user_id = ''u1'', user_folder = Some ''inbox''\<rparr>,
               \<lparr>user_id = ''u2'', user_folder = None\<rparr>]"
    by (simp add: request_users_def example_body_def)
  from jobs_follow_recipients [OF h1 h2 h3 h4]
  obtain jobs where q: "queue_calls (run_trace
        (contentFetchRequestHandler example_world example_body)) = [jobs]"
    and len: "length jobs = 2"
    and at: "\<forall>i < 2. job_userId (jobs ! i) = user_id (request_users example_body ! i)
               \<and> data_folder (job_data (jobs ! i)) = user_folder (request_users example_body ! i)"
    by (auto simp: us)
  from len obtain a b where ab: "jobs = [a, b]"
    by (cases jobs; cases "tl jobs") auto
  from at have "job_userId a = ''u1'' \<and> data_folder (job_data a) = Some ''inbox''"
    by (auto simp: ab us dest: spec [of _ 0])
  moreover from at have "job_userId b = ''u2'' \<and> data_folder (job_data b) = None"
    by (auto simp: ab us dest: spec [of _ 1])
  ultimately show ?thesis using h1 q ab by simp
qed

text \<open>
  C7, as the code has it. \<^verbatim>\<open>!!rssFeedUrl\<close> and \<^verbatim>\<open>!!taskId\<close> test truthiness:
  in every job handed to the queue, \<^verbatim>\<open>isRss\<close> holds exactly when the request's
  \<^verbatim>\<open>rssFeedUrl\<close> is present and not the empty string, and \<^verbatim>\<open>isImport\<close> exactly
  when its \<^verbatim>\<open>taskId\<close> is present and not the empty string. Each flag reads one field
  only, so the two are independent.
\<close>

theorem flags_follow_truthiness:
  assumes "jobs \<in> set (queue_calls (run_trace (contentFetchRequestHandler w body)))"
      and "job \<in> set jobs"
  shows "(job_isRss job \<longleftrightarrow> body_rssFeedUrl body \<notin> {None, Some ''''})
       \<and> (job_isImport job \<longleftrightarrow> body_taskId body \<notin> {None, Some ''''})"
proof -
  from assms(1) have "try_jobs (try_block w body (request_users body)) = Some jobs"
    by (simp add: handler_queue_calls split: option.splits)
  then obtain fr contentHash where "jobs = savePageJobs body (request_users body) fr contentHash"
    by (auto simp: try_block_def Let_def split: outcome.splits prod.splits)
  with assms(2) obtain u where "job = savePageJob body fr contentHash u"
    by (auto simp: savePageJobs_def)
  then show ?thesis
    by (auto simp: savePageJob_def truthy_def split: option.splits)
qed

text \<open>Both flags at once: a request that is an import and comes from a feed.\<close>

theorem flags_follow_truthiness_witness:
  "map (\<lambda>job. (job_userId job, job_isRss job, job_isImport job))
     (concat (queue_calls (run_trace (contentFetchRequestHandler example_world
        (example_body\<lparr>body_rssFeedUrl := Some ''https://a.com/feed'',
                       body_taskId := Some ''t1''\<rparr>))))) =
     [(''u1'', True, True), (''u2'', True, True)]"
proof -
  let ?b = "example_body\<lparr>body_rssFeedUrl := Some ''https://a.com/feed'', body_taskId := Some ''t1''\<rparr>"
  let ?r = "contentFetchRequestHandler example_world ?b"
  let ?job = "savePageJob ?b example_fetch_result (Some ''154b8e64123a857631091c7291cb8d9f'')"
  let ?u1 = "\<lparr>user_id = ''u1'', user_folder = Some ''inbox''\<rparr>"
  let ?u2 = "\<lparr>user_id = ''u2'', user_folder = None\<rparr>"
  have q: "queue_calls (run_trace ?r) = [[?job ?u1, ?job ?u2]]"
    by (simp add: run_defs)
  have ids: "job_userId (?job ?u1) = ''u1''" "job_userId (?job ?u2) = ''u2''"
    by (simp_all add: savePageJob_def)
  have fields: "body_rssFeedUrl ?b \<notin> {None, Some ''''}" "body_taskId ?b \<notin> {None, Some ''''}"
    by simp_all
  have "job_isRss (?job ?u1) \<and> job_isImport (?job ?u1)"
    using flags_follow_truthiness [of "[?job ?u1, ?job ?u2]" example_world ?b "?job ?u1"] fields
    by (simp add: q)
  moreover have "job_isRss (?job ?u2) \<and> job_isImport (?job ?u2)"
    using flags_follow_truthiness [of "[?job ?u1, ?job ?u2]" example_world ?b "?job ?u2"] fields
    by (simp add: q)
  ultimately show ?thesis
    by (simp add: q ids)
qed

text \<open>
  C7, as stated, fails when the field is present but is the empty string: the request
  carries \<^verbatim>\<open>rssFeedUrl\<close> and \<^verbatim>\<open>taskId\<close>, and no job has \<^verbatim>\<open>isRss\<close> or
  \<^verbatim>\<open>isImport\<close>.
\<close>

theorem empty_feed_url_counterexample:
  "body_rssFeedUrl (example_body\<lparr>body_rssFeedUrl := Some '''', body_taskId := Some ''''\<rparr>) \<noteq> None
   \<and> body_taskId (example_body\<lparr>body_rssFeedUrl := Some '''', body_taskId := Some ''''\<rparr>) \<noteq> None
   \<and> map job_isRss (concat (queue_calls (run_trace (contentFetchRequestHandler example_world
        (example_body\<lparr>body_rssFeedUrl := Some '''', body_taskId := Some ''''\<rparr>))))) =
       [False, False]
   \<and> map job_isImport (concat (queue_calls (run_trace (contentFetchRequestHandler example_world
        (example_body\<lparr>body_rssFeedUrl := Some '''', body_taskId := Some ''''\<rparr>))))) =
       [False, False]"
  by (simp add: run_defs)

subsection \<open>Failures of the collaborators\<close>

text \<open>
  What a run does when the page fetcher throws. Line 128 is never reached, so no job
  is built, the queue is never called and nothing is written to the bucket; status 500
  and nothing else is sent; \<^verbatim>\<open>logRecord.error\<close> is the message of the thrown
  \<^verbatim>\<open>Error\<close> (or \<^verbatim>\<open>'unknown error'\<close>); the one event handed to the analytics client
  says \<^verbatim>\<open>'failure'\<close> exactly when that message is not empty.
\<close>

lemma fetch_failure_reported:
  assumes "fetchContent w (body_url body) (body_locale body) (body_timezone body) = Throws err"
  shows "run_jobs (contentFetchRequestHandler w body) = None
       \<and> queue_calls (run_trace (contentFetchRequestHandler w body)) = []
       \<and> save_calls (run_trace (contentFetchRequestHandler w body)) = []
       \<and> log_error (run_logRecord (contentFetchRequestHandler w body)) = Some (error_message err)
       \<and> statuses (run_trace (contentFetchRequestHandler w body)) = [500]
       \<and> map (event_result \<circ> snd) (capture_calls (run_trace (contentFetchRequestHandler w body))) =
           [if err = Error '''' then Success else Failure]"
proof -
  have msg: "error_message err = [] \<longleftrightarrow> err = Error ''''"
    by (cases err) (simp_all add: error_message_def)
  from try_block_fetch_throws [OF assms, of "request_users body"] msg show ?thesis
    by (simp add: handler_jobs handler_queue_calls handler_save_calls handler_error
          handler_statuses handler_capture_calls truthy_def)
qed

text \<open>
  C4 fails on the code. The page fetcher throws an \<^verbatim>\<open>Error\<close> whose message is the
  empty string (\<^verbatim>\<open>new Error()\<close>): no job is built, the queue is never called and the
  run answers 500, yet the outcome the reporting step emits is not a failure. Line 170
  tests the truthiness of the recorded message, which is empty, so the one event the
  analytics client receives says \<^verbatim>\<open>'success'\<close>.
\<close>

theorem fetch_failure_empty_message:
  "fetchContent (example_world\<lparr>fetchContent := \<lambda>url locale timezone. Throws (Error '''')\<rparr>)
     (body_url example_body) (body_locale example_body) (body_timezone example_body) =
     Throws (Error '''')
   \<and> run_jobs (contentFetchRequestHandler
        (example_world\<lparr>fetchContent := \<lambda>url locale timezone. Throws (Error '''')\<rparr>)
        example_body) = None
   \<and> queue_calls (run_trace (contentFetchRequestHandler
        (example_world\<lparr>fetchContent := \<lambda>url locale timezone. Throws (Error '''')\<rparr>)
        example_body)) = []
   \<and> statuses (run_trace (contentFetchRequestHandler
        (example_world\<lparr>fetchContent := \<lambda>url locale timezone. Throws (Error '''')\<rparr>)
        example_body)) = [500]
   \<and> log_error (run_logRecord (contentFetchRequestHandler
        (example_world\<lparr>fetchContent := \<lambda>url locale timezone. Throws (Error '''')\<rparr>)
        example_body)) = Some ''''
   \<and> capture_calls (run_trace (contentFetchRequestHandler
        (example_world\<lparr>fetchContent := \<lambda>url locale timezone. Throws (Error '''')\<rparr>)
        example_body)) =
       [([''u1'', ''u2''],
         \<lparr>event_result = Success, event_url = ''https://a.com'', event_totalTime = 250\<rparr>)]"
  by (simp add: run_defs)

text \<open>
  What a run does when the fetched content is not empty and the write to the bucket
  throws. Status 500 and nothing else is sent, the thrown value's message is recorded,
  no job is built and the queue is never called; the one event handed to the analytics
  client says \<^verbatim>\<open>'failure'\<close> exactly when the recorded message is not empty.
\<close>

lemma store_failure_reported:
  assumes "fetchContent w (body_url body) (body_locale body) (body_timezone body) = Returns fr"
      and "fetch_content fr = Some content" and "content \<noteq> []"
      and "storage_save w (bucketName w) (''originalContent/'' @ hash w content) content =
             Throws err"
  shows "statuses (run_trace (contentFetchRequestHandler w body)) = [500]
       \<and> log_error (run_logRecord (contentFetchRequestHandler w body)) = Some (error_message err)
       \<and> run_jobs (contentFetchRequestHandler w body) = None
       \<and> queue_calls (run_trace (contentFetchRequestHandler w body)) = []
       \<and> map (event_result \<circ> snd) (capture_calls (run_trace (contentFetchRequestHandler w body))) =
           [if err = Error '''' then Success else Failure]"
proof -
  have msg: "error_message err = [] \<longleftrightarrow> err = Error ''''"
    by (cases err) (simp_all add: error_message_def)
  from try_block_store_throws [OF assms(1) content_step_write_fails [OF assms(2-4)],
         of "request_users body"] msg
  show ?thesis
    by (simp add: handler_jobs handler_queue_calls handler_error handler_statuses
          handler_capture_calls truthy_def)
qed

text \<open>
  C5 fails on the code. The write to the bucket throws an \<^verbatim>\<open>Error\<close> whose message is
  the empty string: the queue is never called and the run answers 500, yet the recorded
  message is empty and, by the test of line 170, the one event the analytics client
  receives says \<^verbatim>\<open>'success'\<close>: the whole run is not reported as failed.
\<close>

theorem store_failure_empty_message:
  "storage_save (example_world\<lparr>storage_save := \<lambda>bucket file data. Throws (Error '''')\<rparr>)
     ''omnivore-files'' ''originalContent/154b8e64123a857631091c7291cb8d9f'' ''<html>...'' =
     Throws (Error '''')
   \<and> save_calls (run_trace (contentFetchRequestHandler
        (example_world\<lparr>storage_save := \<lambda>bucket file data. Throws (Error '''')\<rparr>)
        example_body)) =
       [(''omnivore-files'', ''originalContent/154b8e64123a857631091c7291cb8d9f'', ''<html>...'')]
   \<and> queue_calls (run_trace (contentFetchRequestHandler
        (example_world\<lparr>storage_save := \<lambda>bucket file data. Throws (Error '''')\<rparr>)
        example_body)) = []
   \<and> statuses (run_trace (contentFetchRequestHandler
        (example_world\<lparr>storage_save := \<lambda>bucket file data. Throws (Error '''')\<rparr>)
        example_body)) = [500]
   \<and> log_error (run_logRecord (contentFetchRequestHandler
        (example_world\<lparr>storage_save := \<lambda>bucket file data. Throws (Error '''')\<rparr>)
        example_body)) = Some ''''
   \<and> capture_calls (run_trace (contentFetchRequestHandler
        (example_world\<lparr>storage_save := \<lambda>bucket file data. Throws (Error '''')\<rparr>)
        example_body)) =
       [([''u1'', ''u2''],
         \<lparr>event_result = Success, event_url = ''https://a.com'', event_totalTime = 250\<rparr>)]"
  by (simp add: run_defs)

text \<open>
  A digest reaches the queue only after its content was written: whenever a queued job
  carries a content hash, that hash is the digest of the fetched content and the write
  of that content under that name returned.
\<close>

lemma queued_digest_was_written:
  assumes "jobs \<in> set (queue_calls (run_trace (contentFetchRequestHandler w body)))"
      and "job \<in> set jobs"
      and "data_contentHash (job_data job) = Some digest"
  shows "\<exists>content. digest = hash w content
           \<and> storage_save w (bucketName w) (''originalContent/'' @ digest) content = Returns ()
           \<and> (bucketName w, ''originalContent/'' @ digest, content)
                \<in> set (save_calls (run_trace (contentFetchRequestHandler w body)))"
proof -
  from assms(1) have tj: "try_jobs (try_block w body (request_users body)) = Some jobs"
    by (simp add: handler_queue_calls split: option.splits)
  then obtain fr tr contentHash
    where step: "content_step w fr = (tr, Returns contentHash)"
      and jobs: "jobs = savePageJobs body (request_users body) fr contentHash"
      and sub: "set (save_calls tr) \<subseteq> set (save_calls (try_trace (try_block w body (request_users body))))"
    by (auto simp: try_block_def Let_def reader_append split: outcome.splits prod.splits)
  from jobs assms(2,3) have ch: "contentHash = Some digest"
    by (auto simp: savePageJobs_def savePageJob_def)
  from step ch obtain content
    where "digest = hash w content"
      and "storage_save w (bucketName w) (''originalContent/'' @ digest) content = Returns ()"
      and "(bucketName w, ''originalContent/'' @ digest, content) \<in> set (save_calls tr)"
    by (auto simp: content_step_cases split: option.splits if_splits outcome.splits)
  with sub show ?thesis
    by (auto simp: handler_save_calls)
qed

text \<open>
  C6. When the fetch returns and its content is absent (or the empty string, which
  line 121 treats alike), nothing is written to the bucket, the jobs are built and
  handed to the queue all the same, one per recipient, each with \<^verbatim>\<open>contentHash\<close>
  unset, and no error is recorded when the queue accepts them.
\<close>

theorem absent_content_skips_store:
  assumes "fetchContent w (body_url body) (body_locale body) (body_timezone body) = Returns fr"
      and "\<not> truthy (fetch_content fr)"
  shows "save_calls (run_trace (contentFetchRequestHandler w body)) = []
       \<and> run_jobs (contentFetchRequestHandler w body) =
           Some (savePageJobs body (request_users body) fr None)
       \<and> queue_calls (run_trace (contentFetchRequestHandler w body)) =
           [savePageJobs body (request_users body) fr None]
       \<and> length (savePageJobs body (request_users body) fr None) = length (request_users body)
       \<and> (\<forall>job \<in> set (savePageJobs body (request_users body) fr None).
             data_contentHash (job_data job) = None)
       \<and> (\<forall>handles.
             queueSavePageJob w (savePageJobs body (request_users body) fr None) = Returns handles
             \<longrightarrow> log_error (run_logRecord (contentFetchRequestHandler w body)) = None)"
proof -
  let ?jobs = "savePageJobs body (request_users body) fr None"
  note step = content_step_no_content [OF assms(2), of w]
  have built: "length ?jobs = length (request_users body)
      \<and> (\<forall>job \<in> set ?jobs. data_contentHash (job_data job) = None)"
    by (auto simp: savePageJobs_def savePageJob_def)
  show ?thesis
  proof (cases "queueSavePageJob w ?jobs")
    case (Returns handles)
    from try_block_returns [OF assms(1) step Returns] built Returns show ?thesis
      by (simp add: handler_save_calls handler_jobs handler_queue_calls handler_error)
  next
    case (Throws err)
    from try_block_queue_throws [OF assms(1) step Throws] built Throws show ?thesis
      by (simp add: handler_save_calls handler_jobs handler_queue_calls handler_error)
  qed
qed

theorem absent_content_skips_store_witness:
  "\<not> truthy (fetch_content (example_fetch_result\<lparr>fetch_content := None\<rparr>))
   \<and> save_calls (run_trace (contentFetchRequestHandler
        (example_world\<lparr>fetchContent := \<lambda>url locale timezone.
           Returns (example_fetch_result\<lparr>fetch_content := None\<rparr>)\<rparr>) example_body)) = []
   \<and> map (\<lambda>job. (job_userId job, data_contentHash (job_data job)))
        (concat (queue_calls (run_trace (contentFetchRequestHandler
          (example_world\<lparr>fetchContent := \<lambda>url locale timezone.
             Returns (example_fetch_result\<lparr>fetch_content := None\<rparr>)\<rparr>) example_body)))) =
       [(''u1'', None), (''u2'', None)]
   \<and> log_error (run_logRecord (contentFetchRequestHandler
        (example_world\<lparr>fetchContent := \<lambda>url locale timezone.
           Returns (example_fetch_result\<lparr>fetch_content := None\<rparr>)\<rparr>) example_body)) = None"
proof -
  let ?fr = "example_fetch_result\<lparr>fetch_content := None\<rparr>"
  let ?w = "example_world\<lparr>fetchContent := \<lambda>url locale timezone. Returns ?fr\<rparr>"
  have h1: "fetchContent ?w (body_url example_body) (body_locale example_body)
              (body_timezone example_body) = Returns ?fr"
    by simp
  have h2: "\<not> truthy (fetch_content ?fr)"
    by (simp add: truthy_def)
  have q: "queueSavePageJob ?w (savePageJobs example_body (request_users example_body) ?fr None) =
             Returns [''u1'', ''u2'']"
    by (simp add: run_defs)
  have js: "map (\<lambda>job. (job_userId job, data_contentHash (job_data job)))
              (savePageJobs example_body (request_users example_body) ?fr None) =
            [(''u1'', None), (''u2'', None)]"
    by (simp add: run_defs)
  from absent_content_skips_store [OF h1 h2] h2 q js show ?thesis
    by simp
qed

subsection \<open>Reporting\<close>

text \<open>
  C3. Whatever the collaborators do, a run calls \<^verbatim>\<open>analytics.capture\<close> exactly once,
  with the ids of the recipients and one event whose \<^verbatim>\<open>totalTime\<close> is the clock
  reading of the \<^verbatim>\<open>finally\<close> block minus \<^verbatim>\<open>functionStartTime\<close>, the reading of
  line 67; the same difference is stored in \<^verbatim>\<open>logRecord.totalTime\<close>. The statement
  has no hypothesis: it covers the successful run and the runs in which the fetch, the
  write or the queue throws.
\<close>

theorem reporting_runs_exactly_once:
  "capture_calls (run_trace (contentFetchRequestHandler w body)) =
     [(map user_id (request_users body),
       \<lparr>event_result =
          (if truthy (log_error (run_logRecord (contentFetchRequestHandler w body)))
           then Failure else Success),
        event_url = body_url body,
        event_totalTime = dateNow w 1 - dateNow w 0\<rparr>)]
   \<and> log_totalTime (run_logRecord (contentFetchRequestHandler w body)) =
       Some (dateNow w 1 - dateNow w 0)"
  using handler_capture_calls [of w body] handler_totalTime [of w body] by simp

theorem reporting_runs_exactly_once_witness:
  "capture_calls (run_trace (contentFetchRequestHandler
      (example_world\<lparr>fetchContent := \<lambda>url locale timezone. Throws (Error ''timeout'')\<rparr>)
      example_body)) =
     [([''u1'', ''u2''],
       \<lparr>event_result = Failure, event_url = ''https://a.com'', event_totalTime = 250\<rparr>)]
   \<and> capture_calls (run_trace (contentFetchRequestHandler example_world example_body)) =
     [([''u1'', ''u2''],
       \<lparr>event_result = Success, event_url = ''https://a.com'', event_totalTime = 250\<rparr>)]"
proof -
  let ?w = "example_world\<lparr>fetchContent := \<lambda>url locale timezone. Throws (Error ''timeout'')\<rparr>"
  have e1: "log_error (run_logRecord (contentFetchRequestHandler ?w example_body)) =
              Some ''timeout''"
    by (simp add: run_defs)
  have e2: "log_error (run_logRecord (contentFetchRequestHandler example_world example_body)) =
              None"
    by (simp add: run_defs)
  have us: "map user_id (request_users example_body) = [''u1'', ''u2'']"
    by (simp add: request_users_def example_body_def)
  have t: "dateNow ?w 1 - dateNow ?w 0 = 250" "dateNow example_world 1 - dateNow example_world 0 = 250"
    by (simp_all add: example_world_def)
  have u: "body_url example_body = ''https://a.com''"
    by (simp add: example_body_def)
  from reporting_runs_exactly_once [of ?w example_body]
       reporting_runs_exactly_once [of example_world example_body]
  show ?thesis
    unfolding e1 e2 us t u by (simp add: truthy_def)
qed

text \<open>
  What the \<^verbatim>\<open>catch\<close> clause and the \<^verbatim>\<open>finally\<close> block do when the queue throws:
  status 500 and nothing else is sent, \<^verbatim>\<open>logRecord.error\<close> is the message of the
  thrown \<^verbatim>\<open>Error\<close> (or \<^verbatim>\<open>'unknown error'\<close>), the analytics client is called once,
  and the event says \<^verbatim>\<open>'failure'\<close> exactly when the recorded message is not empty.
\<close>

lemma queue_failure_reported:
  assumes "fetchContent w (body_url body) (body_locale body) (body_timezone body) = Returns fr"
      and "snd (content_step w fr) = Returns contentHash"
      and "queueSavePageJob w (savePageJobs body (request_users body) fr contentHash) =
             Throws err"
  shows "statuses (run_trace (contentFetchRequestHandler w body)) = [500]
       \<and> log_error (run_logRecord (contentFetchRequestHandler w body)) = Some (error_message err)
       \<and> (error_message err = [] \<longleftrightarrow> err = Error '''')
       \<and> map (event_result \<circ> snd) (capture_calls (run_trace (contentFetchRequestHandler w body))) =
           [if err = Error '''' then Success else Failure]"
proof -
  obtain tr where step: "content_step w fr = (tr, Returns contentHash)"
    using assms(2) by (cases "content_step w fr") simp
  have msg: "error_message err = [] \<longleftrightarrow> err = Error ''''"
    by (cases err) (simp_all add: error_message_def)
  from try_block_queue_throws [OF assms(1) step assms(3)] msg show ?thesis
    by (simp add: handler_statuses handler_error handler_capture_calls truthy_def)
qed

text \<open>
  C8 fails on the code. The queue throws an \<^verbatim>\<open>Error\<close> whose message is the empty
  string (\<^verbatim>\<open>new Error()\<close>): the run answers 500, yet the recorded error message is
  empty, and since line 170 tests the truthiness of that message, the one event the
  analytics client receives says \<^verbatim>\<open>'success'\<close>.
\<close>

theorem queue_failure_empty_message:
  "queueSavePageJob (example_world\<lparr>queueSavePageJob := \<lambda>jobs. Throws (Error '''')\<rparr>)
     (savePageJobs example_body (request_users example_body) example_fetch_result
        (Some ''154b8e64123a857631091c7291cb8d9f'')) = Throws (Error '''')
   \<and> statuses (run_trace (contentFetchRequestHandler
        (example_world\<lparr>queueSavePageJob := \<lambda>jobs. Throws (Error '''')\<rparr>) example_body)) = [500]
   \<and> log_error (run_logRecord (contentFetchRequestHandler
        (example_world\<lparr>queueSavePageJob := \<lambda>jobs. Throws (Error '''')\<rparr>) example_body)) =
       Some ''''
   \<and> capture_calls (run_trace (contentFetchRequestHandler
        (example_world\<lparr>queueSavePageJob := \<lambda>jobs. Throws (Error '''')\<rparr>) example_body)) =
       [([''u1'', ''u2''],
         \<lparr>event_result = Success, event_url = ''https://a.com'', event_totalTime = 250\<rparr>)]"
  by (simp add: run_defs)

text \<open>The \<^verbatim>\<open>try\<close> block never touches the analytics client.\<close>

lemma content_step_other_sink:
  "content_step (w\<lparr>analytics_capture := sink\<rparr>) fr = content_step w fr"
  by (simp add: content_step_cases bucketName_def hash_def
        cong: option.case_cong outcome.case_cong if_cong)

lemma try_block_other_sink:
  "try_block (w\<lparr>analytics_capture := sink\<rparr>) body users = try_block w body users"
  by (simp add: try_block_def content_step_other_sink Let_def
        cong: outcome.case_cong prod.case_cong)

text \<open>
  C9, as the code has it. Nothing catches what \<^verbatim>\<open>analytics.capture\<close> throws. The
  error a run records does not depend on the analytics client, and whenever an error
  was recorded status 500 has been sent before the client is called, so a failed run
  reports failure whether or not the client throws. A run without error sends status
  200 only when the client returns: when it throws, the promise of the handler rejects
  with the thrown value and no status is sent at all.
\<close>

theorem sink_throw_reaches_caller:
  "log_error (run_logRecord (contentFetchRequestHandler (w\<lparr>analytics_capture := sink\<rparr>) body)) =
     log_error (run_logRecord (contentFetchRequestHandler w body))
   \<and> statuses (run_trace (contentFetchRequestHandler w body)) =
       (if log_error (run_logRecord (contentFetchRequestHandler w body)) \<noteq> None then [500]
        else case run_result (contentFetchRequestHandler w body) of
               Returns u \<Rightarrow> [200]
             | Throws err \<Rightarrow> [])
   \<and> run_result (contentFetchRequestHandler w body) =
       (case capture_calls (run_trace (contentFetchRequestHandler w body)) of
          [(ids, event)] \<Rightarrow>
            (case analytics_capture w ids event of
               Returns u \<Rightarrow> Returns ()
             | Throws err \<Rightarrow> Throws err)
        | _ \<Rightarrow> Returns ())"
proof -
  have "log_error (run_logRecord
        (contentFetchRequestHandler (w\<lparr>analytics_capture := sink\<rparr>) body)) =
      log_error (run_logRecord (contentFetchRequestHandler w body))"
    by (simp add: handler_error try_block_other_sink)
  moreover have "statuses (run_trace (contentFetchRequestHandler w body)) =
      (if log_error (run_logRecord (contentFetchRequestHandler w body)) \<noteq> None then [500]
       else case run_result (contentFetchRequestHandler w body) of
              Returns u \<Rightarrow> [200]
            | Throws err \<Rightarrow> [])"
    by (simp add: handler_statuses handler_error split: option.splits)
  ultimately show ?thesis
    using run_result_eq [of w body] by simp
qed

theorem sink_throw_reaches_caller_witness:
  "statuses (run_trace (contentFetchRequestHandler
      (example_world\<lparr>fetchContent := \<lambda>url locale timezone. Throws (Error ''timeout''),
                     analytics_capture := \<lambda>ids event. Throws (Error ''analytics'')\<rparr>)
      example_body)) = [500]
   \<and> statuses (run_trace (contentFetchRequestHandler
      (example_world\<lparr>fetchContent := \<lambda>url locale timezone. Throws (Error ''timeout'')\<rparr>)
      example_body)) = [500]"
proof -
  let ?w = "example_world\<lparr>fetchContent := \<lambda>url locale timezone. Throws (Error ''timeout'')\<rparr>"
  let ?wt = "example_world\<lparr>fetchContent := \<lambda>url locale timezone. Throws (Error ''timeout''),
               analytics_capture := \<lambda>ids event. Throws (Error ''analytics'')\<rparr>"
  have e: "log_error (run_logRecord (contentFetchRequestHandler ?w example_body)) =
             Some ''timeout''"
    by (simp add: run_defs)
  have et: "log_error (run_logRecord (contentFetchRequestHandler ?wt example_body)) =
             Some ''timeout''"
    by (simp add: run_defs)
  from sink_throw_reaches_caller [where w = ?w and body = example_body]
       sink_throw_reaches_caller [where w = ?wt and body = example_body]
  show ?thesis
    by (simp add: e et)
qed

text \<open>
  C9, as stated, fails: in the example every step succeeds, and the run that answers
  200 when the analytics client returns sends no status and rejects when it throws.
\<close>

theorem throwing_sink_counterexample:
  "statuses (run_trace (contentFetchRequestHandler example_world example_body)) = [200]
   \<and> run_result (contentFetchRequestHandler example_world example_body) = Returns ()
   \<and> statuses (run_trace (contentFetchRequestHandler
        (example_world\<lparr>analytics_capture := \<lambda>ids event. Throws (Error ''analytics'')\<rparr>)
        example_body)) = []
   \<and> run_result (contentFetchRequestHandler
        (example_world\<lparr>analytics_capture := \<lambda>ids event. Throws (Error ''analytics'')\<rparr>)
        example_body) = Throws (Error ''analytics'')"
  by (simp add: run_defs)

end
